theory Spec2Isabelle
  imports Main
begin

section \<open>Data model\<close>

text \<open>
  The rows of the two tables of \<^verbatim>\<open>src/db/schema.sql\<close>, with the field names of
  \<^verbatim>\<open>src/types.ts\<close>. The primary key \<^verbatim>\<open>agents.id\<close> is the key of the map that
  models the table, so a row does not repeat it. Numbers of the source are integers
  here (the columns are declared INTEGER). A timestamp is the number of milliseconds
  since the epoch that \<^verbatim>\<open>new Date(s).getTime()\<close> gives for the stored text;
  the text that the default \<^verbatim>\<open>datetime('now')\<close> of the schema stores always
  parses, and a row whose text does not parse is not a state of this model.
\<close>

datatype agent_status = pending | active | suspended

record Agent =
  moltbook_username :: "string option"
  moltbook_verified :: bool
  moltbook_karma :: "int option"
  public_key :: "string option"
  capabilities :: "string list"
  trust_score :: int
  vouch_count :: int
  status :: agent_status
  verification_code :: "string option"
  created_at :: int
  updated_at :: int

record Vouch =
  vouch_id :: string
  from_agent_id :: string
  to_agent_id :: string

text \<open>
  The database: the agents table, the vouches table in insertion order, and whether
  the engine enforces the FOREIGN KEY clauses of the schema (the source does not set
  it: it is the engine's configuration, so it is a parameter of the state).
\<close>

record database =
  agents :: "string \<rightharpoonup> Agent"
  vouches :: "Vouch list"
  foreign_keys :: bool

record TrustFactors =
  f_moltbook_verified :: int
  f_karma :: int
  f_age :: int
  f_vouches :: int

record TrustDetails =
  score :: int
  factors :: TrustFactors
  d_moltbook_verified :: bool
  d_moltbook_karma :: "int option"
  d_vouch_count :: int
  age_days :: int

section \<open>TrustService\<close>

definition MOLTBOOK_VERIFIED_POINTS :: int where "MOLTBOOK_VERIFIED_POINTS = 20"
definition KARMA_MAX_POINTS :: int where "KARMA_MAX_POINTS = 30"
definition KARMA_DIVISOR :: int where "KARMA_DIVISOR = 100"
definition AGE_MAX_POINTS :: int where "AGE_MAX_POINTS = 20"
definition VOUCH_POINTS_EACH :: int where "VOUCH_POINTS_EACH = 5"
definition VOUCH_MAX_POINTS :: int where "VOUCH_MAX_POINTS = 30"
definition MAX_TOTAL_SCORE :: int where "MAX_TOTAL_SCORE = 100"

lemmas score_caps =
  MOLTBOOK_VERIFIED_POINTS_def KARMA_MAX_POINTS_def KARMA_DIVISOR_def AGE_MAX_POINTS_def
  VOUCH_POINTS_EACH_def VOUCH_MAX_POINTS_def MAX_TOTAL_SCORE_def

text \<open>
  \<^verbatim>\<open>Math.floor((Date.now() - createdAt.getTime()) / (1000 * 60 * 60 * 24))\<close>:
  \<open>div\<close> on \<open>int\<close> rounds down, as \<^verbatim>\<open>Math.floor\<close> does, also below zero.
\<close>

definition ageDays :: "int \<Rightarrow> Agent \<Rightarrow> int" where
  "ageDays now agent = (now - created_at agent) div (1000 * 60 * 60 * 24)"

text \<open>
  The query of \<^verbatim>\<open>calculateScore\<close>:
  \<^verbatim>\<open>SELECT COUNT( * ) AS count FROM vouches v JOIN agents a ON v.from_agent_id = a.id
         WHERE v.to_agent_id = ? AND a.moltbook_verified = 1\<close>.
  The join keeps a vouch only when its voucher is a row of agents.
\<close>

definition verifiedVouches :: "database \<Rightarrow> string \<Rightarrow> int" where
  "verifiedVouches db agentId =
     int (length (filter
       (\<lambda>v. to_agent_id v = agentId \<and>
            (case agents db (from_agent_id v) of
               None \<Rightarrow> False
             | Some a \<Rightarrow> moltbook_verified a))
       (vouches db)))"

text \<open>\<^verbatim>\<open>TrustService.calculateScore\<close>, statement by statement.\<close>

definition calculateScore :: "database \<Rightarrow> int \<Rightarrow> string \<Rightarrow> int" where
  "calculateScore db now agentId =
     (case agents db agentId of
        None \<Rightarrow> 0
      | Some agent \<Rightarrow>
          (let score = 0;
               score = (if moltbook_verified agent
                        then score + MOLTBOOK_VERIFIED_POINTS else score);
               karma = (case moltbook_karma agent of None \<Rightarrow> 0 | Some k \<Rightarrow> k);
               score = score + min (karma div KARMA_DIVISOR) KARMA_MAX_POINTS;
               score = score + min (ageDays now agent) AGE_MAX_POINTS;
               vouchCount = verifiedVouches db agentId;
               score = score + min (vouchCount * VOUCH_POINTS_EACH) VOUCH_MAX_POINTS
           in min score MAX_TOTAL_SCORE))"

text \<open>The local constants of \<^verbatim>\<open>TrustService.getDetails\<close>, then the function.\<close>

definition moltbookFactor :: "Agent \<Rightarrow> int" where
  "moltbookFactor agent = (if moltbook_verified agent then MOLTBOOK_VERIFIED_POINTS else 0)"

definition karmaFactor :: "Agent \<Rightarrow> int" where
  "karmaFactor agent =
     min ((case moltbook_karma agent of None \<Rightarrow> 0 | Some k \<Rightarrow> k) div KARMA_DIVISOR)
         KARMA_MAX_POINTS"

definition ageFactor :: "int \<Rightarrow> Agent \<Rightarrow> int" where
  "ageFactor now agent = min (ageDays now agent) AGE_MAX_POINTS"

definition vouchFactor :: "Agent \<Rightarrow> int" where
  "vouchFactor agent = min (vouch_count agent * VOUCH_POINTS_EACH) VOUCH_MAX_POINTS"

definition getDetails :: "int \<Rightarrow> Agent \<Rightarrow> TrustDetails" where
  "getDetails now agent =
     \<lparr> score = trust_score agent,
       factors = \<lparr> f_moltbook_verified = moltbookFactor agent,
                   f_karma = karmaFactor agent,
                   f_age = ageFactor now agent,
                   f_vouches = vouchFactor agent \<rparr>,
       d_moltbook_verified = moltbook_verified agent,
       d_moltbook_karma = moltbook_karma agent,
       d_vouch_count = vouch_count agent,
       age_days = ageDays now agent \<rparr>"

section \<open>AgentService\<close>

text \<open>
  What a statement of the source can be refused for by the schema of vouches:
  the PRIMARY KEY and the UNIQUE(from_agent_id, to_agent_id) clause (both reported as
  a "UNIQUE constraint failed" error, which the route recognises by the words
  "UNIQUE constraint" in the message) and the two FOREIGN KEY clauses.
\<close>

datatype db_error = UNIQUE_constraint | FOREIGN_KEY_constraint

text \<open>
  \<^verbatim>\<open>INSERT INTO vouches (id, from_agent_id, to_agent_id) VALUES (?, ?, ?)\<close>.
  A refused insert raises and leaves the tables as they were. Uniqueness is checked
  row by row before the foreign keys, which the engine checks when the statement ends.
\<close>

definition insert_vouch :: "database \<Rightarrow> Vouch \<Rightarrow> (db_error + unit) \<times> database" where
  "insert_vouch db v =
     (if list_ex (\<lambda>w. vouch_id w = vouch_id v) (vouches db)
      then (Inl UNIQUE_constraint, db)
      else if list_ex (\<lambda>w. from_agent_id w = from_agent_id v \<and>
                            to_agent_id w = to_agent_id v) (vouches db)
      then (Inl UNIQUE_constraint, db)
      else if foreign_keys db \<and>
              (agents db (from_agent_id v) = None \<or> agents db (to_agent_id v) = None)
      then (Inl FOREIGN_KEY_constraint, db)
      else (Inr (), db\<lparr>vouches := vouches db @ [v]\<rparr>))"

text \<open>
  \<^verbatim>\<open>UPDATE agents SET vouch_count = vouch_count + 1, updated_at = ? WHERE id = ?\<close>:
  no row has the id, no row changes.
\<close>

definition increment_vouch_count :: "database \<Rightarrow> int \<Rightarrow> string \<Rightarrow> database" where
  "increment_vouch_count db now toId =
     (case agents db toId of
        None \<Rightarrow> db
      | Some a \<Rightarrow>
          db\<lparr>agents := (agents db)(toId \<mapsto>
                a\<lparr>vouch_count := vouch_count a + 1, updated_at := now\<rparr>)\<rparr>)"

text \<open>
  \<^verbatim>\<open>AgentService.addVouch\<close>. The result of \<^verbatim>\<open>nanoid(12)\<close> and the clock are
  arguments. The exception of a refused insert leaves the function before the update.
\<close>

definition addVouch ::
  "database \<Rightarrow> int \<Rightarrow> string \<Rightarrow> string \<Rightarrow> string \<Rightarrow> (db_error + unit) \<times> database" where
  "addVouch db now nanoid fromId toId =
     (case insert_vouch db
             \<lparr>vouch_id = ''vch_'' @ nanoid, from_agent_id = fromId, to_agent_id = toId\<rparr> of
        (Inl e, db1) \<Rightarrow> (Inl e, db1)
      | (Inr _, db1) \<Rightarrow> (Inr (), increment_vouch_count db1 now toId))"

definition getById :: "database \<Rightarrow> string \<Rightarrow> Agent option" where
  "getById db i = agents db i"

definition getVouches :: "database \<Rightarrow> string \<Rightarrow> string list" where
  "getVouches db agentId =
     map from_agent_id (filter (\<lambda>v. to_agent_id v = agentId) (vouches db))"

text \<open>
  The argument of \<^verbatim>\<open>AgentService.update\<close>: each field is given or undefined; a
  given karma or public key may be null.
\<close>

record AgentUpdates =
  u_moltbook_verified :: "bool option"
  u_moltbook_karma :: "int option option"
  u_trust_score :: "int option"
  u_vouch_count :: "int option"
  u_status :: "agent_status option"
  u_capabilities :: "string list option"
  u_public_key :: "string option option"

definition no_updates :: AgentUpdates where
  "no_updates =
     \<lparr> u_moltbook_verified = None, u_moltbook_karma = None, u_trust_score = None,
       u_vouch_count = None, u_status = None, u_capabilities = None,
       u_public_key = None \<rparr>"

definition set_fields :: "AgentUpdates \<Rightarrow> Agent \<Rightarrow> Agent" where
  "set_fields updates a =
     (let a = (case u_moltbook_verified updates of
                 None \<Rightarrow> a | Some x \<Rightarrow> a\<lparr>moltbook_verified := x\<rparr>);
          a = (case u_moltbook_karma updates of
                 None \<Rightarrow> a | Some x \<Rightarrow> a\<lparr>moltbook_karma := x\<rparr>);
          a = (case u_trust_score updates of
                 None \<Rightarrow> a | Some x \<Rightarrow> a\<lparr>trust_score := x\<rparr>);
          a = (case u_vouch_count updates of
                 None \<Rightarrow> a | Some x \<Rightarrow> a\<lparr>vouch_count := x\<rparr>);
          a = (case u_status updates of
                 None \<Rightarrow> a | Some x \<Rightarrow> a\<lparr>status := x\<rparr>);
          a = (case u_capabilities updates of
                 None \<Rightarrow> a | Some x \<Rightarrow> a\<lparr>capabilities := x\<rparr>);
          a = (case u_public_key updates of
                 None \<Rightarrow> a | Some x \<Rightarrow> a\<lparr>public_key := x\<rparr>)
      in a)"

definition update :: "database \<Rightarrow> int \<Rightarrow> string \<Rightarrow> AgentUpdates \<Rightarrow> database" where
  "update db now i updates =
     (if updates = no_updates then db
      else case agents db i of
             None \<Rightarrow> db
           | Some a \<Rightarrow>
               db\<lparr>agents := (agents db)(i \<mapsto> (set_fields updates a)\<lparr>updated_at := now\<rparr>)\<rparr>)"

section \<open>The route POST /v1/agents/:id/vouch\<close>

datatype vouch_response =
    ValidationFailed_400
  | Unauthorized_403
  | NotFound_404
  | InvalidVouch_400
  | AlreadyVouched_409
  | VouchAdded_200 int
  | Rethrown db_error

text \<open>
  The handler. \<open>t_add\<close>, \<open>t_score\<close> and \<open>t_update\<close> are the clock readings of
  \<^verbatim>\<open>addVouch\<close>, \<^verbatim>\<open>calculateScore\<close> and \<^verbatim>\<open>update\<close>. The validator
  \<^verbatim>\<open>vouchSchema\<close> refuses an empty \<^verbatim>\<open>from_agent_id\<close> before the handler runs.
\<close>

definition post_vouch ::
  "database \<Rightarrow> int \<Rightarrow> int \<Rightarrow> int \<Rightarrow> string \<Rightarrow> string \<Rightarrow> string
     \<Rightarrow> vouch_response \<times> database" where
  "post_vouch db t_add t_score t_update nanoid toId fromId =
     (if fromId = [] then (ValidationFailed_400, db)
      else (case getById db fromId of
        None \<Rightarrow> (Unauthorized_403, db)
      | Some voucher \<Rightarrow>
          (if \<not> moltbook_verified voucher then (Unauthorized_403, db)
           else (case getById db toId of
             None \<Rightarrow> (NotFound_404, db)
           | Some target \<Rightarrow>
               (if fromId = toId then (InvalidVouch_400, db)
                else (case addVouch db t_add nanoid fromId toId of
                  (Inl e, db1) \<Rightarrow>
                    ((if e = UNIQUE_constraint then AlreadyVouched_409 else Rethrown e),
                     db1)
                | (Inr _, db1) \<Rightarrow>
                    (let newScore = calculateScore db1 t_score toId
                     in (VouchAdded_200 newScore,
                         update db1 t_update toId
                           (no_updates\<lparr>u_trust_score := Some newScore\<rparr>)))))))))"

section \<open>Concrete states\<close>

text \<open>
  The row that \<^verbatim>\<open>AgentService.create\<close> leaves in the table, with the defaults of
  the schema, registered at time 0; and a database with a verified agent
  \<^verbatim>\<open>mlt_a\<close> and a new agent \<^verbatim>\<open>mlt_b\<close>, no vouch yet.
\<close>

definition new_agent :: Agent where
  "new_agent =
     \<lparr> moltbook_username = None, moltbook_verified = False, moltbook_karma = None,
       public_key = None, capabilities = [], trust_score = 0, vouch_count = 0,
       status = pending, verification_code = None, created_at = 0, updated_at = 0 \<rparr>"

definition example_db :: database where
  "example_db =
     \<lparr> agents = [''mlt_a'' \<mapsto> new_agent\<lparr>moltbook_verified := True, status := active\<rparr>,
                  ''mlt_b'' \<mapsto> new_agent],
       vouches = [],
       foreign_keys = True \<rparr>"

text \<open>
  The recipient \<^verbatim>\<open>mlt_b\<close> with three incoming vouches: from the verified active
  agent \<^verbatim>\<open>mlt_a\<close>, the verified suspended agent \<^verbatim>\<open>mlt_s\<close> and the
  unverified agent \<^verbatim>\<open>mlt_u\<close>.
\<close>

definition vouched_db :: database where
  "vouched_db =
     \<lparr> agents = [''mlt_a'' \<mapsto> new_agent\<lparr>moltbook_verified := True, status := active\<rparr>,
                  ''mlt_s'' \<mapsto> new_agent\<lparr>moltbook_verified := True, status := suspended\<rparr>,
                  ''mlt_u'' \<mapsto> new_agent\<lparr>status := active\<rparr>,
                  ''mlt_b'' \<mapsto> new_agent\<lparr>vouch_count := 3\<rparr>],
       vouches = [\<lparr>vouch_id = ''vch_1'', from_agent_id = ''mlt_a'', to_agent_id = ''mlt_b''\<rparr>,
                  \<lparr>vouch_id = ''vch_2'', from_agent_id = ''mlt_s'', to_agent_id = ''mlt_b''\<rparr>,
                  \<lparr>vouch_id = ''vch_3'', from_agent_id = ''mlt_u'', to_agent_id = ''mlt_b''\<rparr>],
       foreign_keys = True \<rparr>"

text \<open>
  The database of \<open>example_db\<close> with both rows stamped one second later than the
  clock reading 0 at which the examples compute the score: a \<^verbatim>\<open>created_at\<close> in
  the future.
\<close>

definition skewed_db :: database where
  "skewed_db =
     \<lparr> agents = [''mlt_a'' \<mapsto> new_agent\<lparr>moltbook_verified := True, status := active,
                                          created_at := 1000\<rparr>,
                  ''mlt_b'' \<mapsto> new_agent\<lparr>created_at := 1000\<rparr>],
       vouches = [],
       foreign_keys = True \<rparr>"

text \<open>
  A database whose one agent is verified and has the karma -150, as the verify route
  stores it when the profile that Moltbook returns has that karma.
\<close>

definition negative_karma_db :: database where
  "negative_karma_db =
     \<lparr> agents = [''mlt_k'' \<mapsto> new_agent\<lparr>moltbook_verified := True,
                                          moltbook_karma := Some (-150), status := active\<rparr>],
       vouches = [],
       foreign_keys = True \<rparr>"

text \<open>One day in milliseconds.\<close>

definition day :: int where "day = 1000 * 60 * 60 * 24"

lemmas run_defs =
  post_vouch_def getById_def addVouch_def insert_vouch_def increment_vouch_count_def
  update_def no_updates_def set_fields_def calculateScore_def ageDays_def score_caps
  verifiedVouches_def example_db_def new_agent_def

section \<open>Properties of the score\<close>

lemma calculateScore_breakdown:
  assumes "agents db agentId = Some agent"
  shows "calculateScore db now agentId =
           moltbookFactor agent + karmaFactor agent + ageFactor now agent
           + min (verifiedVouches db agentId * VOUCH_POINTS_EACH) VOUCH_MAX_POINTS"
  using assms
  by (simp add: calculateScore_def moltbookFactor_def karmaFactor_def ageFactor_def
      score_caps Let_def)

lemma verifiedVouches_cong:
  assumes "vouches db' = vouches db"
      and "\<And>k. map_option moltbook_verified (agents db' k)
                 = map_option moltbook_verified (agents db k)"
  shows "verifiedVouches db' i = verifiedVouches db i"
proof -
  have "(case agents db' k of None \<Rightarrow> False | Some a \<Rightarrow> moltbook_verified a)
        = (case agents db k of None \<Rightarrow> False | Some a \<Rightarrow> moltbook_verified a)" for k
    using assms(2) [of k] by (auto split: option.splits)
  then show ?thesis
    by (simp add: verifiedVouches_def assms(1))
qed

lemma verifiedVouches_append:
  "verifiedVouches (db\<lparr>vouches := vouches db @ [v]\<rparr>) i =
     verifiedVouches db i
     + (if to_agent_id v = i
           \<and> (case agents db (from_agent_id v) of None \<Rightarrow> False | Some a \<Rightarrow> moltbook_verified a)
        then 1 else 0)"
  by (simp add: verifiedVouches_def)

lemma addVouch_success:
  assumes "addVouch db now nanoid fromId toId = (Inr (), db1)"
  shows "db1 = increment_vouch_count
                 (db\<lparr>vouches := vouches db
                    @ [\<lparr>vouch_id = ''vch_'' @ nanoid, from_agent_id = fromId,
                         to_agent_id = toId\<rparr>]\<rparr>) now toId"
  using assms
  by (auto simp: addVouch_def insert_vouch_def split: if_splits)

lemma increment_vouch_count_vouches [simp]:
  "vouches (increment_vouch_count db now i) = vouches db"
  by (simp add: increment_vouch_count_def split: option.splits)

lemma increment_vouch_count_verified:
  "map_option moltbook_verified (agents (increment_vouch_count db now i) k)
     = map_option moltbook_verified (agents db k)"
  by (simp add: increment_vouch_count_def split: option.splits)

lemma update_trust_score_vouches [simp]:
  "vouches (update db now i (no_updates\<lparr>u_trust_score := Some s\<rparr>)) = vouches db"
  by (simp add: update_def split: option.splits)

lemma set_trust_score:
  "set_fields (no_updates\<lparr>u_trust_score := Some s\<rparr>) a = a\<lparr>trust_score := s\<rparr>"
  by (simp add: set_fields_def no_updates_def)

lemma update_trust_score_agents:
  "agents (update db now i (no_updates\<lparr>u_trust_score := Some s\<rparr>)) k =
     (if k = i then map_option (\<lambda>a. a\<lparr>trust_score := s, updated_at := now\<rparr>) (agents db i)
      else agents db k)"
proof -
  have "no_updates\<lparr>u_trust_score := Some s\<rparr> \<noteq> no_updates"
    by (simp add: no_updates_def)
  then show ?thesis
    by (simp add: update_def set_trust_score split: option.splits)
qed

lemma post_vouch_success:
  assumes "post_vouch db t_add t_score t_update nanoid toId fromId = (VouchAdded_200 s, db')"
  obtains voucher target db1 where
    "agents db fromId = Some voucher" "moltbook_verified voucher"
    "agents db toId = Some target" "fromId \<noteq> toId"
    "addVouch db t_add nanoid fromId toId = (Inr (), db1)"
    "s = calculateScore db1 t_score toId"
    "db' = update db1 t_update toId (no_updates\<lparr>u_trust_score := Some s\<rparr>)"
  using assms
  by (auto simp: post_vouch_def getById_def Let_def
      split: if_splits option.splits prod.splits sum.splits)

lemma calculateScore_cong:
  assumes "vouches db' = vouches db"
      and "\<And>k. map_option moltbook_verified (agents db' k)
                 = map_option moltbook_verified (agents db k)"
      and "map_option moltbook_karma (agents db' i) = map_option moltbook_karma (agents db i)"
      and "map_option created_at (agents db' i) = map_option created_at (agents db i)"
  shows "calculateScore db' now i = calculateScore db now i"
proof (cases "agents db i")
  case None
  with assms(3) have "agents db' i = None" by simp
  with None show ?thesis by (simp add: calculateScore_def)
next
  case (Some a)
  with assms(3) obtain a' where a': "agents db' i = Some a'" by auto
  from assms(2) [of i] assms(3,4) Some a'
  have "moltbook_verified a' = moltbook_verified a" "moltbook_karma a' = moltbook_karma a"
       "created_at a' = created_at a"
    by simp_all
  moreover have "verifiedVouches db' i = verifiedVouches db i"
    using assms(1,2) by (rule verifiedVouches_cong)
  ultimately show ?thesis
    using Some a' by (simp add: calculateScore_def ageDays_def)
qed

text \<open>
  C10: for an agent id that is not the id of a row of agents, \<^verbatim>\<open>calculateScore\<close>
  returns the number 0: no error, no absent value.
\<close>

theorem calculateScore_unknown_agent:
  "agents db agentId = None \<Longrightarrow> calculateScore db now agentId = 0"
  by (simp add: calculateScore_def)

theorem calculateScore_unknown_agent_witness:
  "agents example_db ''mlt_nonexistent'' = None
   \<and> calculateScore example_db 0 ''mlt_nonexistent'' = 0"
  using calculateScore_unknown_agent [of example_db "''mlt_nonexistent''" 0]
  by (simp add: example_db_def)

lemma calculateScore_upper: "calculateScore db now i \<le> 100"
  by (cases "agents db i")
     (simp_all add: calculateScore_def Let_def score_caps)

lemma ageFactor_clamped:
  assumes "created_at a \<le> now"
  shows "ageFactor now a = max 0 (min ((now - created_at a) div day) 20)"
  using assms by (simp add: ageFactor_def ageDays_def day_def score_caps pos_imp_zdiv_nonneg_iff)

lemma calculateScore_lower:
  assumes "agents db i = Some a" "created_at a \<le> now"
      and "\<And>k. moltbook_karma a = Some k \<Longrightarrow> 0 \<le> k"
  shows "0 \<le> calculateScore db now i"
proof -
  have "0 \<le> ageFactor now a"
    using assms(2) by (simp add: ageFactor_def ageDays_def score_caps pos_imp_zdiv_nonneg_iff)
  moreover have "0 \<le> karmaFactor a"
    using assms(3) by (cases "moltbook_karma a")
       (simp_all add: karmaFactor_def score_caps pos_imp_zdiv_nonneg_iff)
  moreover have "0 \<le> moltbookFactor a"
    by (simp add: moltbookFactor_def score_caps)
  moreover have "0 \<le> verifiedVouches db i"
    by (simp add: verifiedVouches_def)
  ultimately show ?thesis
    using calculateScore_breakdown [OF assms(1), of now] by (simp add: score_caps)
qed

text \<open>
  What the karma factor does on a karma that is null or not negative: a null karma counts
  as 0; the factor does not decrease when karma grows; it is \<open>k div 100\<close> clamped to
  the interval from 0 to 30, grows by 1 with every 100 karma below 3000 and is 30 from
  3000 on; it is 25 at 2500, 0 at 99 and 30 at 10000.
\<close>

lemma karmaFactor_of_valid_karma:
  "karmaFactor (a\<lparr>moltbook_karma := None\<rparr>) = 0
   \<and> karmaFactor (a\<lparr>moltbook_karma := None\<rparr>) = karmaFactor (a\<lparr>moltbook_karma := Some 0\<rparr>)
   \<and> (k \<le> k' \<longrightarrow> karmaFactor (a\<lparr>moltbook_karma := Some k\<rparr>)
                   \<le> karmaFactor (a\<lparr>moltbook_karma := Some k'\<rparr>))
   \<and> (0 \<le> k \<longrightarrow> karmaFactor (a\<lparr>moltbook_karma := Some k\<rparr>) = max 0 (min (k div 100) 30))
   \<and> (0 \<le> k \<and> k < 3000 \<longrightarrow> karmaFactor (a\<lparr>moltbook_karma := Some (k + 100)\<rparr>)
                      = karmaFactor (a\<lparr>moltbook_karma := Some k\<rparr>) + 1)
   \<and> (3000 \<le> k \<longrightarrow> karmaFactor (a\<lparr>moltbook_karma := Some k\<rparr>) = 30)
   \<and> karmaFactor (a\<lparr>moltbook_karma := Some 2500\<rparr>) = 25
   \<and> karmaFactor (a\<lparr>moltbook_karma := Some 99\<rparr>) = 0
   \<and> karmaFactor (a\<lparr>moltbook_karma := Some 10000\<rparr>) = 30"
proof -
  have val: "karmaFactor (a\<lparr>moltbook_karma := Some n\<rparr>) = min (n div 100) 30" for n
    by (simp add: karmaFactor_def score_caps)
  have null: "karmaFactor (a\<lparr>moltbook_karma := None\<rparr>) = 0"
    by (simp add: karmaFactor_def score_caps)
  have zero: "karmaFactor (a\<lparr>moltbook_karma := None\<rparr>)
                = karmaFactor (a\<lparr>moltbook_karma := Some 0\<rparr>)"
    by (simp add: val null)
  have mono: "karmaFactor (a\<lparr>moltbook_karma := Some k\<rparr>)
                \<le> karmaFactor (a\<lparr>moltbook_karma := Some k'\<rparr>)" if "k \<le> k'"
    using zdiv_mono1 [OF that, of 100] by (simp add: val)
  have clamp: "karmaFactor (a\<lparr>moltbook_karma := Some k\<rparr>) = max 0 (min (k div 100) 30)"
    if "0 \<le> k"
    using that by (simp add: val pos_imp_zdiv_nonneg_iff)
  have step: "karmaFactor (a\<lparr>moltbook_karma := Some (k + 100)\<rparr>)
                = karmaFactor (a\<lparr>moltbook_karma := Some k\<rparr>) + 1" if "k < 3000"
    using that by (simp add: val)
  have flat: "karmaFactor (a\<lparr>moltbook_karma := Some k\<rparr>) = 30" if "3000 \<le> k"
    using that by (simp add: val)
  have examples: "karmaFactor (a\<lparr>moltbook_karma := Some 2500\<rparr>) = 25"
    "karmaFactor (a\<lparr>moltbook_karma := Some 99\<rparr>) = 0"
    "karmaFactor (a\<lparr>moltbook_karma := Some 10000\<rparr>) = 30"
    by (simp_all add: val)
  from null zero mono clamp step flat examples show ?thesis
    by blast
qed

text \<open>
  C8, at a karma of -150: the clamp of \<open>-150 div 100\<close> to the interval from 0 to 30
  is 0, the karma factor that \<^verbatim>\<open>getDetails\<close> reports is -2, and
  \<^verbatim>\<open>calculateScore\<close> gives the verified agent with this karma 18 where it gives
  the same agent with a null karma 20: the karma part lowers the score.
\<close>

theorem karma_factor_negative_for_negative_karma:
  "karmaFactor (new_agent\<lparr>moltbook_karma := Some (-150)\<rparr>) = -2
   \<and> f_karma (factors (getDetails 0 (new_agent\<lparr>moltbook_karma := Some (-150)\<rparr>))) = -2
   \<and> max 0 (min ((-150) div 100) (30::int)) = 0
   \<and> calculateScore negative_karma_db 0 ''mlt_k'' = 18
   \<and> calculateScore
        (negative_karma_db\<lparr>agents := (agents negative_karma_db)
           (''mlt_k'' \<mapsto> new_agent\<lparr>moltbook_verified := True, moltbook_karma := None,
                                  status := active\<rparr>)\<rparr>) 0 ''mlt_k'' = 20"
  by (simp add: getDetails_def karmaFactor_def ageDays_def score_caps calculateScore_def
      verifiedVouches_def negative_karma_db_def new_agent_def)

text \<open>
  C1, at an agent whose \<^verbatim>\<open>created_at\<close> is one second after the clock reading:
  the age factor of \<^verbatim>\<open>getDetails\<close> is -1, not 0, and \<^verbatim>\<open>calculateScore\<close>
  gives the verified agent 19 where it gives 20 once the clock has reached
  \<^verbatim>\<open>created_at\<close>: the age part lowers the score.
\<close>

theorem age_factor_negative_for_future_created_at:
  "ageFactor 0 (new_agent\<lparr>created_at := 1000\<rparr>) = -1
   \<and> f_age (factors (getDetails 0 (new_agent\<lparr>created_at := 1000\<rparr>))) = -1
   \<and> calculateScore skewed_db 0 ''mlt_a'' = 19
   \<and> calculateScore skewed_db 1000 ''mlt_a'' = 20"
  by (simp add: getDetails_def ageFactor_def ageDays_def score_caps calculateScore_def
      verifiedVouches_def skewed_db_def new_agent_def)

text \<open>
  C2, at the unverified agent with null karma, no vouch and a \<^verbatim>\<open>created_at\<close>
  one second after the clock reading: \<^verbatim>\<open>calculateScore\<close> returns -1, which is
  not in the interval from 0 to 100.
\<close>

theorem calculateScore_below_zero:
  "calculateScore skewed_db 0 ''mlt_b'' = -1"
  by (simp add: calculateScore_def ageDays_def score_caps verifiedVouches_def skewed_db_def
      new_agent_def)

text \<open>
  C3, as the claim states it, at an agent registered five days ago that was never
  verified and never vouched for: the stored score that \<^verbatim>\<open>getDetails\<close> reports
  is still 0, the four factors it reports sum to 5.
\<close>

theorem getDetails_stale_score_counterexample:
  "f_moltbook_verified (factors (getDetails (5 * day) new_agent))
   + f_karma (factors (getDetails (5 * day) new_agent))
   + f_age (factors (getDetails (5 * day) new_agent))
   + f_vouches (factors (getDetails (5 * day) new_agent))
   \<noteq> score (getDetails (5 * day) new_agent)"
  by (simp add: getDetails_def moltbookFactor_def karmaFactor_def ageFactor_def vouchFactor_def
      ageDays_def score_caps new_agent_def day_def)

text \<open>
  C3, amended: \<^verbatim>\<open>getDetails\<close> reports as score the stored
  \<^verbatim>\<open>trust_score\<close>, not a recalculation. For an agent whose \<^verbatim>\<open>created_at\<close>
  is not after the clock reading, whose karma is null or not negative and whose stored
  \<^verbatim>\<open>vouch_count\<close> is the number of its incoming vouches of verified vouchers,
  each of the four factors it reports is the clamped contribution (20 or 0;
  \<open>karma div 100\<close> clamped to 0..30; the elapsed days clamped to 0..20; 5 for each
  vouch of a verified voucher clamped to 0..30), the four sum to what
  \<^verbatim>\<open>calculateScore\<close> returns at the same instant, and they sum to the reported
  score exactly when the stored score is that value.
\<close>

theorem getDetails_breakdown:
  assumes row: "agents db i = Some a"
      and age: "created_at a \<le> now"
      and karma: "case moltbook_karma a of None \<Rightarrow> True | Some k \<Rightarrow> 0 \<le> k"
      and count: "vouch_count a = verifiedVouches db i"
  shows "f_moltbook_verified (factors (getDetails now a)) = (if moltbook_verified a then 20 else 0)
       \<and> f_karma (factors (getDetails now a))
           = max 0 (min ((case moltbook_karma a of None \<Rightarrow> 0 | Some k \<Rightarrow> k) div 100) 30)
       \<and> f_age (factors (getDetails now a)) = max 0 (min ((now - created_at a) div day) 20)
       \<and> f_vouches (factors (getDetails now a)) = max 0 (min (5 * verifiedVouches db i) 30)
       \<and> f_moltbook_verified (factors (getDetails now a)) + f_karma (factors (getDetails now a))
           + f_age (factors (getDetails now a)) + f_vouches (factors (getDetails now a))
           = calculateScore db now i
       \<and> score (getDetails now a) = trust_score a
       \<and> (f_moltbook_verified (factors (getDetails now a)) + f_karma (factors (getDetails now a))
           + f_age (factors (getDetails now a)) + f_vouches (factors (getDetails now a))
           = score (getDetails now a)
          \<longleftrightarrow> trust_score a = calculateScore db now i)"
proof -
  let ?d = "getDetails now a"
  have ver: "f_moltbook_verified (factors ?d) = (if moltbook_verified a then 20 else 0)"
    by (simp add: getDetails_def moltbookFactor_def score_caps)
  have kar: "f_karma (factors ?d)
               = max 0 (min ((case moltbook_karma a of None \<Rightarrow> 0 | Some k \<Rightarrow> k) div 100) 30)"
    using karma
    by (cases "moltbook_karma a")
       (simp_all add: getDetails_def karmaFactor_def score_caps pos_imp_zdiv_nonneg_iff)
  have ag: "f_age (factors ?d) = max 0 (min ((now - created_at a) div day) 20)"
    using ageFactor_clamped [OF age] by (simp add: getDetails_def)
  have "0 \<le> verifiedVouches db i"
    by (simp add: verifiedVouches_def)
  then have vou: "f_vouches (factors ?d) = max 0 (min (5 * verifiedVouches db i) 30)"
    using count by (simp add: getDetails_def vouchFactor_def score_caps mult.commute)
  have total: "f_moltbook_verified (factors ?d) + f_karma (factors ?d) + f_age (factors ?d)
                 + f_vouches (factors ?d) = calculateScore db now i"
    using calculateScore_breakdown [OF row, of now] count
    by (simp add: getDetails_def vouchFactor_def)
  have stored: "score ?d = trust_score a"
    by (simp add: getDetails_def)
  show ?thesis
    unfolding total stored using ver kar ag vou by auto
qed

theorem getDetails_breakdown_witness:
  "agents (snd (post_vouch example_db 1 2 3 ''n1'' ''mlt_b'' ''mlt_a'')) ''mlt_b''
     = Some (new_agent\<lparr>trust_score := 5, vouch_count := 1, updated_at := 3\<rparr>)
   \<and> verifiedVouches (snd (post_vouch example_db 1 2 3 ''n1'' ''mlt_b'' ''mlt_a'')) ''mlt_b'' = 1
   \<and> calculateScore (snd (post_vouch example_db 1 2 3 ''n1'' ''mlt_b'' ''mlt_a'')) 2
        ''mlt_b'' = 5
   \<and> f_age (factors (getDetails 2
                (new_agent\<lparr>trust_score := 5, vouch_count := 1, updated_at := 3\<rparr>))) = 0
   \<and> f_vouches (factors (getDetails 2
                (new_agent\<lparr>trust_score := 5, vouch_count := 1, updated_at := 3\<rparr>))) = 5
   \<and> score (getDetails 2
                (new_agent\<lparr>trust_score := 5, vouch_count := 1, updated_at := 3\<rparr>)) = 5
   \<and> calculateScore (snd (post_vouch example_db 1 2 3 ''n1'' ''mlt_b'' ''mlt_a'')) (2 * day)
        ''mlt_b'' = 7
   \<and> f_age (factors (getDetails (2 * day)
                (new_agent\<lparr>trust_score := 5, vouch_count := 1, updated_at := 3\<rparr>))) = 2
   \<and> score (getDetails (2 * day)
                (new_agent\<lparr>trust_score := 5, vouch_count := 1, updated_at := 3\<rparr>)) = 5"
proof -
  let ?db = "snd (post_vouch example_db 1 2 3 ''n1'' ''mlt_b'' ''mlt_a'')"
  let ?b = "new_agent\<lparr>trust_score := 5, vouch_count := 1, updated_at := 3\<rparr>"
  have db: "?db = \<lparr> agents = [''mlt_a'' \<mapsto> new_agent\<lparr>moltbook_verified := True, status := active\<rparr>,
                  ''mlt_b'' \<mapsto> ?b],
       vouches = [\<lparr>vouch_id = ''vch_n1'', from_agent_id = ''mlt_a'', to_agent_id = ''mlt_b''\<rparr>],
       foreign_keys = True \<rparr>"
    by (simp add: run_defs fun_upd_twist)
  have row: "agents ?db ''mlt_b'' = Some ?b"
    unfolding db by simp
  have n: "verifiedVouches ?db ''mlt_b'' = 1"
    unfolding db by (simp add: verifiedVouches_def new_agent_def)
  have count: "vouch_count ?b = verifiedVouches ?db ''mlt_b''"
    unfolding n by simp
  have karma: "case moltbook_karma ?b of None \<Rightarrow> True | Some k \<Rightarrow> 0 \<le> k"
    by (simp add: new_agent_def)
  have early: "created_at ?b \<le> 2" and late: "created_at ?b \<le> 2 * day"
    by (simp_all add: new_agent_def day_def)
  from getDetails_breakdown [OF row early karma count]
       getDetails_breakdown [OF row late karma count] row n
  show ?thesis
    by (simp add: new_agent_def day_def)
qed

section \<open>Properties of the vouch graph\<close>

lemma insert_vouch_duplicate:
  assumes "list_ex (\<lambda>w. from_agent_id w = from_agent_id v \<and> to_agent_id w = to_agent_id v)
             (vouches db)"
  shows "insert_vouch db v = (Inl UNIQUE_constraint, db)"
  using assms by (simp add: insert_vouch_def)

text \<open>
  C4: when the edge (A, B) is already in the vouches table, \<^verbatim>\<open>addVouch(A, B)\<close>
  fails with the UNIQUE constraint error and the database it leaves is the database it
  found: the same edges, the same \<^verbatim>\<open>vouch_count\<close> of B. The route answers such a
  request of a verified voucher A for another agent B with \<^verbatim>\<open>already_vouched\<close>
  (409), the database unchanged. In particular a call of \<^verbatim>\<open>addVouch(A, B)\<close> that
  follows a successful one is refused in this way.
\<close>

theorem addVouch_duplicate_rejected:
  "(list_ex (\<lambda>w. from_agent_id w = A \<and> to_agent_id w = B) (vouches db) \<longrightarrow>
      addVouch db now nanoid A B = (Inl UNIQUE_constraint, db)
      \<and> (A \<noteq> [] \<and> A \<noteq> B \<and> agents db B \<noteq> None
           \<and> (\<exists>voucher. agents db A = Some voucher \<and> moltbook_verified voucher)
         \<longrightarrow> post_vouch db t_add t_score t_update nanoid B A = (AlreadyVouched_409, db)))
   \<and> (addVouch db0 t0 n0 A B = (Inr (), db1) \<longrightarrow>
        addVouch db1 now nanoid A B = (Inl UNIQUE_constraint, db1))"
proof -
  have store: "addVouch d t nanoid A B = (Inl UNIQUE_constraint, d)"
    if "list_ex (\<lambda>w. from_agent_id w = A \<and> to_agent_id w = B) (vouches d)" for d t
    using that by (simp add: addVouch_def insert_vouch_duplicate)
  have route: "post_vouch db t_add t_score t_update nanoid B A = (AlreadyVouched_409, db)"
    if "list_ex (\<lambda>w. from_agent_id w = A \<and> to_agent_id w = B) (vouches db)"
       "A \<noteq> []" "A \<noteq> B" "agents db B \<noteq> None"
       "\<exists>voucher. agents db A = Some voucher \<and> moltbook_verified voucher"
    using that(2-) store [OF that(1), of t_add] by (auto simp: post_vouch_def getById_def)
  have twice: "addVouch db1 now nanoid A B = (Inl UNIQUE_constraint, db1)"
    if first: "addVouch db0 t0 n0 A B = (Inr (), db1)"
  proof -
    have "vouches db1 = vouches db0
            @ [\<lparr>vouch_id = ''vch_'' @ n0, from_agent_id = A, to_agent_id = B\<rparr>]"
      using addVouch_success [OF first] by simp
    then show ?thesis by (intro store) simp
  qed
  show ?thesis
    using store [of db now] route twice by blast
qed

theorem addVouch_duplicate_rejected_witness:
  "addVouch example_db 1 ''n1'' ''mlt_a'' ''mlt_b''
     = (Inr (), snd (addVouch example_db 1 ''n1'' ''mlt_a'' ''mlt_b''))
   \<and> list_ex (\<lambda>w. from_agent_id w = ''mlt_a'' \<and> to_agent_id w = ''mlt_b'')
        (vouches (snd (addVouch example_db 1 ''n1'' ''mlt_a'' ''mlt_b'')))
   \<and> addVouch (snd (addVouch example_db 1 ''n1'' ''mlt_a'' ''mlt_b'')) 2 ''n2''
        ''mlt_a'' ''mlt_b''
       = (Inl UNIQUE_constraint, snd (addVouch example_db 1 ''n1'' ''mlt_a'' ''mlt_b''))
   \<and> post_vouch (snd (addVouch example_db 1 ''n1'' ''mlt_a'' ''mlt_b'')) 2 3 4 ''n2''
        ''mlt_b'' ''mlt_a''
       = (AlreadyVouched_409, snd (addVouch example_db 1 ''n1'' ''mlt_a'' ''mlt_b''))"
  using addVouch_duplicate_rejected
          [where A = "''mlt_a''" and B = "''mlt_b''"
             and db = "snd (addVouch example_db 1 ''n1'' ''mlt_a'' ''mlt_b'')"
             and now = 2 and nanoid = "''n2''" and t_add = 2 and t_score = 3 and t_update = 4
             and ?db0.0 = example_db and ?t0.0 = 1 and ?n0.0 = "''n1''"
             and ?db1.0 = "snd (addVouch example_db 1 ''n1'' ''mlt_a'' ''mlt_b'')"]
  by (simp add: addVouch_def insert_vouch_def increment_vouch_count_def example_db_def
      new_agent_def)

text \<open>
  C5: a vouch request whose voucher and recipient are the same id A is refused and
  leaves the database as it was, whatever A is: with \<^verbatim>\<open>invalid_vouch\<close> (400) when
  A is a verified agent, with \<^verbatim>\<open>unauthorized\<close> (403) when A is unverified or no
  agent (the validator refuses the empty id). So no request adds a self-loop: a vouches
  table without self-loops has none after any request.
\<close>

theorem self_vouch_rejected:
  "post_vouch db t_add t_score t_update nanoid A A =
     ((if A = [] then ValidationFailed_400
       else if (case agents db A of None \<Rightarrow> False | Some a \<Rightarrow> moltbook_verified a)
            then InvalidVouch_400 else Unauthorized_403), db)
   \<and> (list_all (\<lambda>v. from_agent_id v \<noteq> to_agent_id v) (vouches db)
        \<longrightarrow> list_all (\<lambda>v. from_agent_id v \<noteq> to_agent_id v)
              (vouches (snd (post_vouch db t_add t_score t_update nanoid toId fromId))))"
  by (auto simp: post_vouch_def getById_def addVouch_def insert_vouch_def
        increment_vouch_count_def update_def Let_def
      split: option.splits)

theorem self_vouch_rejected_witness:
  "post_vouch example_db 1 2 3 ''n1'' ''mlt_a'' ''mlt_a'' = (InvalidVouch_400, example_db)
   \<and> post_vouch example_db 1 2 3 ''n1'' ''mlt_b'' ''mlt_b'' = (Unauthorized_403, example_db)
   \<and> list_all (\<lambda>v. from_agent_id v \<noteq> to_agent_id v) (vouches example_db)
   \<and> list_all (\<lambda>v. from_agent_id v \<noteq> to_agent_id v)
        (vouches (snd (post_vouch example_db 1 2 3 ''n1'' ''mlt_b'' ''mlt_a'')))"
  using self_vouch_rejected [of example_db 1 2 3 "''n1''" "''mlt_a''" "''mlt_b''" "''mlt_a''"]
        self_vouch_rejected [of example_db 1 2 3 "''n1''" "''mlt_b''"]
  by (simp add: example_db_def new_agent_def)

text \<open>
  C9, as the claim states it, at a voucher id that is no agent, in a database that
  enforces the foreign keys of the schema and has no vouch yet: no uniqueness
  constraint is in the way, and \<^verbatim>\<open>addVouch\<close> fails on the FOREIGN KEY clause and
  inserts nothing.
\<close>

theorem addVouch_foreign_key_counterexample:
  "vouches example_db = []
   \<and> agents example_db ''mlt_ghost'' = None
   \<and> addVouch example_db 1 ''n1'' ''mlt_ghost'' ''mlt_b'' = (Inl FOREIGN_KEY_constraint, example_db)"
  by (simp add: addVouch_def insert_vouch_def example_db_def)

text \<open>
  C9, amended: \<^verbatim>\<open>addVouch\<close> checks nothing of its own, neither that voucher and
  recipient differ nor that the voucher is verified. For every pair of ids, the same id
  twice included, that the constraints of the vouches table admit (a fresh vouch id, no
  edge of this pair yet and, where the database enforces foreign keys, both ids agents),
  it inserts the edge and adds 1 to the recipient's \<^verbatim>\<open>vouch_count\<close> when the
  recipient is a row of agents; every other row is as before.
\<close>

theorem addVouch_store_checks:
  assumes fresh: "\<not> list_ex (\<lambda>w. vouch_id w = ''vch_'' @ nanoid) (vouches db)"
      and new: "\<not> list_ex (\<lambda>w. from_agent_id w = fromId \<and> to_agent_id w = toId) (vouches db)"
      and fk: "foreign_keys db \<Longrightarrow> agents db fromId \<noteq> None \<and> agents db toId \<noteq> None"
  shows "\<exists>db'. addVouch db now nanoid fromId toId = (Inr (), db')
           \<and> vouches db' = vouches db
                @ [\<lparr>vouch_id = ''vch_'' @ nanoid, from_agent_id = fromId, to_agent_id = toId\<rparr>]
           \<and> agents db' toId
               = map_option (\<lambda>a. a\<lparr>vouch_count := vouch_count a + 1, updated_at := now\<rparr>)
                   (agents db toId)
           \<and> (\<forall>k. k \<noteq> toId \<longrightarrow> agents db' k = agents db k)"
proof -
  let ?edge = "\<lparr>vouch_id = ''vch_'' @ nanoid, from_agent_id = fromId, to_agent_id = toId\<rparr>"
  have "insert_vouch db ?edge = (Inr (), db\<lparr>vouches := vouches db @ [?edge]\<rparr>)"
    using fresh new fk by (auto simp: insert_vouch_def)
  then have "addVouch db now nanoid fromId toId
               = (Inr (), increment_vouch_count (db\<lparr>vouches := vouches db @ [?edge]\<rparr>) now toId)"
    by (simp add: addVouch_def)
  then show ?thesis
    by (cases "agents db toId") (simp_all add: increment_vouch_count_def)
qed

theorem addVouch_store_checks_witness:
  "\<not> moltbook_verified new_agent
   \<and> agents example_db ''mlt_b'' = Some new_agent
   \<and> fst (addVouch example_db 1 ''n1'' ''mlt_b'' ''mlt_b'') = Inr ()
   \<and> vouches (snd (addVouch example_db 1 ''n1'' ''mlt_b'' ''mlt_b''))
       = [\<lparr>vouch_id = ''vch_n1'', from_agent_id = ''mlt_b'', to_agent_id = ''mlt_b''\<rparr>]
   \<and> agents (snd (addVouch example_db 1 ''n1'' ''mlt_b'' ''mlt_b'')) ''mlt_b''
       = Some (new_agent\<lparr>vouch_count := 1, updated_at := 1\<rparr>)"
  using addVouch_store_checks [of "''n1''" example_db "''mlt_b''" "''mlt_b''" 1]
  by (auto simp: example_db_def new_agent_def)

section \<open>Properties of the vouch factor\<close>

text \<open>
  C6: in \<^verbatim>\<open>calculateScore\<close> the part of the score that comes from vouches is
  \<open>min (5 * n) 30\<close>, where \<open>n\<close> is the number of rows of vouches that point to
  the agent and whose voucher is, when the score is computed, a verified row of agents.
  When no incoming vouch has a verified voucher the part is 0, and rewriting the status
  of every agent in any way leaves the score as it is.
\<close>

theorem vouch_factor_counts_verified_vouchers:
  assumes "agents db i = Some a"
  shows "calculateScore db now i - (moltbookFactor a + karmaFactor a + ageFactor now a)
           = min (5 * int (length (filter
                     (\<lambda>v. to_agent_id v = i
                          \<and> (\<exists>r. agents db (from_agent_id v) = Some r \<and> moltbook_verified r))
                     (vouches db)))) 30
       \<and> ((\<forall>v \<in> set (vouches db). to_agent_id v = i \<longrightarrow>
              (\<forall>r. agents db (from_agent_id v) = Some r \<longrightarrow> \<not> moltbook_verified r))
            \<longrightarrow> calculateScore db now i = moltbookFactor a + karmaFactor a + ageFactor now a)
       \<and> calculateScore (db\<lparr>agents := \<lambda>k. map_option (\<lambda>r. r\<lparr>status := st k\<rparr>) (agents db k)\<rparr>)
            now i = calculateScore db now i"
proof -
  let ?counted = "\<lambda>v. to_agent_id v = i
                     \<and> (\<exists>r. agents db (from_agent_id v) = Some r \<and> moltbook_verified r)"
  have pred: "(case agents db k of None \<Rightarrow> False | Some r \<Rightarrow> moltbook_verified r)
                \<longleftrightarrow> (\<exists>r. agents db k = Some r \<and> moltbook_verified r)" for k
    by (cases "agents db k") simp_all
  have n: "verifiedVouches db i = int (length (filter ?counted (vouches db)))"
    by (simp add: verifiedVouches_def pred)
  have part: "calculateScore db now i - (moltbookFactor a + karmaFactor a + ageFactor now a)
                = min (5 * int (length (filter ?counted (vouches db)))) 30"
    using calculateScore_breakdown [OF assms, of now] n by (simp add: score_caps mult.commute)
  have zero: "calculateScore db now i = moltbookFactor a + karmaFactor a + ageFactor now a"
    if "\<forall>v \<in> set (vouches db). to_agent_id v = i \<longrightarrow>
          (\<forall>r. agents db (from_agent_id v) = Some r \<longrightarrow> \<not> moltbook_verified r)"
  proof -
    from that have "filter ?counted (vouches db) = []"
      by (auto simp: filter_empty_conv)
    with part show ?thesis by simp
  qed
  have status: "calculateScore
                  (db\<lparr>agents := \<lambda>k. map_option (\<lambda>r. r\<lparr>status := st k\<rparr>) (agents db k)\<rparr>)
                  now i = calculateScore db now i"
    by (rule calculateScore_cong) (simp_all add: option.map_comp comp_def)
  from part zero status show ?thesis by blast
qed

theorem vouch_factor_counts_verified_vouchers_witness:
  "agents vouched_db ''mlt_b'' = Some (new_agent\<lparr>vouch_count := 3\<rparr>)
   \<and> calculateScore vouched_db 0 ''mlt_b'' = 10
   \<and> calculateScore
        (vouched_db\<lparr>agents := \<lambda>k. map_option (\<lambda>r. r\<lparr>status := suspended\<rparr>)
                                     (agents vouched_db k)\<rparr>) 0 ''mlt_b'' = 10
   \<and> calculateScore
        (vouched_db\<lparr>vouches := [\<lparr>vouch_id = ''vch_3'', from_agent_id = ''mlt_u'',
                                   to_agent_id = ''mlt_b''\<rparr>]\<rparr>) 0 ''mlt_b'' = 0"
proof -
  let ?only_unverified =
    "vouched_db\<lparr>vouches := [\<lparr>vouch_id = ''vch_3'', from_agent_id = ''mlt_u'',
                               to_agent_id = ''mlt_b''\<rparr>]\<rparr>"
  have row: "agents vouched_db ''mlt_b'' = Some (new_agent\<lparr>vouch_count := 3\<rparr>)"
    by (simp add: vouched_db_def)
  have row': "agents ?only_unverified ''mlt_b'' = Some (new_agent\<lparr>vouch_count := 3\<rparr>)"
    by (simp add: vouched_db_def)
  have unverified: "\<forall>v \<in> set (vouches ?only_unverified). to_agent_id v = ''mlt_b'' \<longrightarrow>
          (\<forall>r. agents ?only_unverified (from_agent_id v) = Some r \<longrightarrow> \<not> moltbook_verified r)"
    by (simp add: vouched_db_def new_agent_def)
  have factors: "moltbookFactor (new_agent\<lparr>vouch_count := 3\<rparr>) = 0"
    "karmaFactor (new_agent\<lparr>vouch_count := 3\<rparr>) = 0"
    "ageFactor 0 (new_agent\<lparr>vouch_count := 3\<rparr>) = 0"
    by (simp_all add: moltbookFactor_def karmaFactor_def ageFactor_def ageDays_def score_caps
        new_agent_def)
  have "calculateScore vouched_db 0 ''mlt_b'' = 10"
    by (simp add: calculateScore_def verifiedVouches_def ageDays_def score_caps
        vouched_db_def new_agent_def)
  with vouch_factor_counts_verified_vouchers [OF row, of 0 "\<lambda>_. suspended"]
       vouch_factor_counts_verified_vouchers [OF row', of 0] unverified factors row
  show ?thesis by simp
qed

text \<open>
  C7: when the route answers a vouch request with success and the score \<open>s\<close>, the
  voucher is verified, the new edge is in the vouches table, the recipient has one more
  vouch of a verified voucher than before, \<open>s\<close> is \<^verbatim>\<open>calculateScore\<close> on the
  database with the new edge and is the recipient's stored \<^verbatim>\<open>trust_score\<close>, and
  \<open>s\<close> is the score that the database before the vouch gives at the same instant
  plus 5, or plus 0 when the vouch part was at its cap of 30 already.
\<close>

theorem vouch_then_rescore:
  assumes "post_vouch db t_add t_score t_update nanoid toId fromId = (VouchAdded_200 s, db')"
  shows "(\<exists>voucher. agents db fromId = Some voucher \<and> moltbook_verified voucher)
       \<and> list_ex (\<lambda>v. from_agent_id v = fromId \<and> to_agent_id v = toId) (vouches db')
       \<and> verifiedVouches db' toId = verifiedVouches db toId + 1
       \<and> s = calculateScore db' t_score toId
       \<and> map_option trust_score (agents db' toId) = Some s
       \<and> s = calculateScore db t_score toId
                + (if min (verifiedVouches db toId * 5) 30 < 30 then 5 else 0)"
proof -
  from assms obtain voucher target db1 where
    voucher: "agents db fromId = Some voucher" "moltbook_verified voucher"
    and target: "agents db toId = Some target"
    and added: "addVouch db t_add nanoid fromId toId = (Inr (), db1)"
    and s: "s = calculateScore db1 t_score toId"
    and db': "db' = update db1 t_update toId (no_updates\<lparr>u_trust_score := Some s\<rparr>)"
    by (rule post_vouch_success)
  let ?edge = "\<lparr>vouch_id = ''vch_'' @ nanoid, from_agent_id = fromId, to_agent_id = toId\<rparr>"
  let ?db0 = "db\<lparr>vouches := vouches db @ [?edge]\<rparr>"
  have db1: "db1 = increment_vouch_count ?db0 t_add toId"
    using added by (rule addVouch_success)
  have edges: "vouches db' = vouches db @ [?edge]"
    by (simp add: db' db1)
  have count1: "verifiedVouches db1 toId = verifiedVouches db toId + 1"
  proof -
    have "verifiedVouches db1 toId = verifiedVouches ?db0 toId"
      unfolding db1 by (rule verifiedVouches_cong) (simp_all add: increment_vouch_count_verified)
    then show ?thesis
      using voucher by (simp add: verifiedVouches_append)
  qed
  have flags: "map_option moltbook_verified (agents db' k)
                 = map_option moltbook_verified (agents db1 k)" for k
    by (simp add: db' update_trust_score_agents option.map_comp comp_def)
  have count': "verifiedVouches db' toId = verifiedVouches db toId + 1"
  proof -
    have "verifiedVouches db' toId = verifiedVouches db1 toId"
      by (rule verifiedVouches_cong) (simp_all add: db' flags [unfolded db'])
    with count1 show ?thesis by simp
  qed
  have same: "calculateScore db' t_score toId = calculateScore db1 t_score toId"
    by (rule calculateScore_cong)
       (simp_all add: flags, simp_all add: db' update_trust_score_agents option.map_comp comp_def)
  obtain target1 where target1: "agents db1 toId = Some target1"
    and eq1: "moltbook_verified target1 = moltbook_verified target"
             "moltbook_karma target1 = moltbook_karma target"
             "created_at target1 = created_at target"
    using target by (simp add: db1 increment_vouch_count_def)
  have persisted: "map_option trust_score (agents db' toId) = Some s"
    using target1 by (simp add: db' update_trust_score_agents)
  have "calculateScore db1 t_score toId =
          moltbookFactor target + karmaFactor target + ageFactor t_score target
          + min ((verifiedVouches db toId + 1) * 5) 30"
    using calculateScore_breakdown [OF target1, of t_score] eq1 count1
    by (simp add: moltbookFactor_def karmaFactor_def ageFactor_def ageDays_def score_caps)
  moreover have "calculateScore db t_score toId =
          moltbookFactor target + karmaFactor target + ageFactor t_score target
          + min (verifiedVouches db toId * 5) 30"
    using calculateScore_breakdown [OF target, of t_score] by (simp add: score_caps)
  ultimately have raised: "s = calculateScore db t_score toId
                + (if min (verifiedVouches db toId * 5) 30 < 30 then 5 else 0)"
    unfolding s by auto
  show ?thesis
    using voucher edges count' same s persisted raised by simp
qed

theorem vouch_then_rescore_witness:
  "post_vouch example_db 1 2 3 ''n1'' ''mlt_b'' ''mlt_a''
     = (VouchAdded_200 5, snd (post_vouch example_db 1 2 3 ''n1'' ''mlt_b'' ''mlt_a''))
   \<and> calculateScore example_db 2 ''mlt_b'' = 0
   \<and> map_option trust_score
        (agents (snd (post_vouch example_db 1 2 3 ''n1'' ''mlt_b'' ''mlt_a'')) ''mlt_b'') = Some 5"
proof -
  have run: "post_vouch example_db 1 2 3 ''n1'' ''mlt_b'' ''mlt_a''
     = (VouchAdded_200 5, snd (post_vouch example_db 1 2 3 ''n1'' ''mlt_b'' ''mlt_a''))"
    by (simp add: run_defs)
  have before: "calculateScore example_db 2 ''mlt_b'' = 0"
    by (simp add: run_defs)
  from vouch_then_rescore [OF run] before show ?thesis
    using run by simp
qed

end
